theory Spec2Isabelle
  imports Complex_Main "HOL-Library.Sublist"
begin

section \<open>The readsb query server: data model\<close>

text \<open>
  The server (\<^verbatim>\<open>readsb_mcp_server.py\<close>) answers tool calls over JSON documents fetched
  from a readsb receiver. JSON numbers and Python floats are modelled as \<^typ>\<open>real\<close>:
  the arithmetic below is the exact one, rounding of IEEE doubles is not part of the
  model. A JSON object is a record of optional fields (\<open>None\<close> for an absent key); only
  the keys that the modelled functions read are kept. Strings are ASCII text.
\<close>

record aircraft =
  ac_hex :: "string option"
  ac_flight :: "string option"
  ac_lat :: "real option"
  ac_lon :: "real option"
  ac_alt_baro :: "real option"
  ac_r_dst :: "real option"

record receiver =
  rx_lat :: "real option"
  rx_lon :: "real option"

text \<open>
  What \<^verbatim>\<open>_fetch_json\<close> returns for the two endpoints the queries read. \<open>Inl e\<close> stands
  for a fetch that raises (transport failure, timeout, HTTP error status), with the text
  \<open>e\<close> of the exception. For
  \<^verbatim>\<open>aircraft.json\<close> the value is the list under the key \<^verbatim>\<open>aircraft\<close>, which the
  source reads with \<^verbatim>\<open>data.get("aircraft", [])\<close>.
\<close>

record upstream =
  receiver_json :: "string + receiver"
  aircraft_json :: "string + aircraft list"

datatype endpoint = Receiver_endpoint | Aircraft_endpoint

text \<open>
  A value of a tool argument as Python sees it after JSON decoding. \<^verbatim>\<open>bool\<close> is a
  subclass of \<^verbatim>\<open>int\<close> in Python, so \<^verbatim>\<open>isinstance(True, int)\<close> holds and \<^verbatim>\<open>True\<close>
  compares as 1.
\<close>

datatype pyval = PyInt int | PyBool bool | PyFloat real | PyStr string | PyNone

fun isinstance_int :: "pyval \<Rightarrow> bool" where
  "isinstance_int (PyInt n) = True"
| "isinstance_int (PyBool b) = True"
| "isinstance_int v = False"

fun int_value :: "pyval \<Rightarrow> int" where
  "int_value (PyInt n) = n"
| "int_value (PyBool b) = (if b then 1 else 0)"
| "int_value v = 0"

text \<open>Truthiness of an optional number: \<^verbatim>\<open>None\<close> and zero are both false.\<close>

fun truthy :: "real option \<Rightarrow> bool" where
  "truthy None = False"
| "truthy (Some x) = (x \<noteq> 0)"

text \<open>\<^verbatim>\<open>d.get(key, default)\<close> on an optional field.\<close>

fun get_default :: "'a option \<Rightarrow> 'a \<Rightarrow> 'a" where
  "get_default None d = d"
| "get_default (Some v) d = v"

subsection \<open>Strings\<close>

text \<open>
  A string between single quotes: what the f-strings of the messages write as
  \<^verbatim>\<open>'{query}'\<close>, and the text of the \<^verbatim>\<open>KeyError\<close> that \<^verbatim>\<open>args[key]\<close> raises for a
  missing key.
\<close>

definition quoted :: "string \<Rightarrow> string" where
  "quoted k = [CHR 0x27] @ k @ [CHR 0x27]"

text \<open>
  \<^verbatim>\<open>str.upper\<close> and \<^verbatim>\<open>str.lower\<close> on ASCII text: the 26 letters change, every other
  character stays.
\<close>

definition upper_char :: "char \<Rightarrow> char" where
  "upper_char c =
     get_default
       (map_of (zip ''abcdefghijklmnopqrstuvwxyz'' ''ABCDEFGHIJKLMNOPQRSTUVWXYZ'') c) c"

definition lower_char :: "char \<Rightarrow> char" where
  "lower_char c =
     get_default
       (map_of (zip ''ABCDEFGHIJKLMNOPQRSTUVWXYZ'' ''abcdefghijklmnopqrstuvwxyz'') c) c"

definition upper :: "string \<Rightarrow> string" where
  "upper s = map upper_char s"

definition lower :: "string \<Rightarrow> string" where
  "lower s = map lower_char s"



section \<open>Coordinate mathematics\<close>

definition radians :: "real \<Rightarrow> real" where
  "radians x = x * (pi / 180)"

definition degrees :: "real \<Rightarrow> real" where
  "degrees x = x * (180 / pi)"

text \<open>
  \<^verbatim>\<open>math.atan2(y, x)\<close>: the angle of the point \<open>(x, y)\<close> in \<open>(-pi, pi]\<close>, and 0 at
  the origin.
\<close>

definition atan2 :: "real \<Rightarrow> real \<Rightarrow> real" where
  "atan2 y x =
     (if 0 < x then arctan (y / x)
      else if x < 0 then (if 0 \<le> y then arctan (y / x) + pi else arctan (y / x) - pi)
      else if 0 < y then pi / 2
      else if y < 0 then - (pi / 2)
      else 0)"

text \<open>Python's \<^verbatim>\<open>%\<close> on floats: the result has the sign of the divisor.\<close>

definition float_mod :: "real \<Rightarrow> real \<Rightarrow> real" where
  "float_mod x m = x - m * of_int \<lfloor>x / m\<rfloor>"

text \<open>\<^verbatim>\<open>_calculate_distance\<close>: the haversine formula, in nautical miles.\<close>

definition calculate_distance :: "real \<Rightarrow> real \<Rightarrow> real \<Rightarrow> real \<Rightarrow> real" where
  "calculate_distance lat1 lon1 lat2 lon2 =
     (let lat1_rad = radians lat1;
          lon1_rad = radians lon1;
          lat2_rad = radians lat2;
          lon2_rad = radians lon2;
          dlat = lat2_rad - lat1_rad;
          dlon = lon2_rad - lon1_rad;
          a = (sin (dlat / 2))\<^sup>2 + cos lat1_rad * cos lat2_rad * (sin (dlon / 2))\<^sup>2;
          c = 2 * arcsin (sqrt a);
          earth_radius_nm = 3440.065
      in earth_radius_nm * c)"

text \<open>\<^verbatim>\<open>_calculate_bearing\<close>: the initial bearing from point 1 to point 2, in degrees.\<close>

definition calculate_bearing :: "real \<Rightarrow> real \<Rightarrow> real \<Rightarrow> real \<Rightarrow> real" where
  "calculate_bearing lat1 lon1 lat2 lon2 =
     (let lat1_rad = radians lat1;
          lon1_rad = radians lon1;
          lat2_rad = radians lat2;
          lon2_rad = radians lon2;
          dlon = lon2_rad - lon1_rad;
          y = sin dlon * cos lat2_rad;
          x = cos lat1_rad * sin lat2_rad - sin lat1_rad * cos lat2_rad * cos dlon;
          bearing = degrees (atan2 y x)
      in float_mod (bearing + 360) 360)"

section \<open>Direction sectors\<close>

text \<open>
  \<^verbatim>\<open>_get_direction_range\<close>: a dictionary lookup with the default \<open>(0, 360)\<close>
  (\<^verbatim>\<open>direction_ranges.get(direction, (0, 360))\<close>).
\<close>

definition direction_ranges :: "string \<rightharpoonup> real \<times> real" where
  "direction_ranges =
     [''north'' \<mapsto> (337.5, 22.5),
      ''northeast'' \<mapsto> (22.5, 67.5),
      ''east'' \<mapsto> (67.5, 112.5),
      ''southeast'' \<mapsto> (112.5, 157.5),
      ''south'' \<mapsto> (157.5, 202.5),
      ''southwest'' \<mapsto> (202.5, 247.5),
      ''west'' \<mapsto> (247.5, 292.5),
      ''northwest'' \<mapsto> (292.5, 337.5)]"

definition get_direction_range :: "string \<Rightarrow> real \<times> real" where
  "get_direction_range direction = get_default (direction_ranges direction) (0, 360)"

text \<open>
  The membership test of \<^verbatim>\<open>_get_aircraft_by_direction\<close> (the \<^verbatim>\<open>in_direction\<close>
  variable of its loop), with the wraparound branch for a range whose minimum is above
  its maximum.
\<close>

definition in_direction :: "real \<Rightarrow> real \<Rightarrow> real \<Rightarrow> bool" where
  "in_direction bearing min_bearing max_bearing =
     (if min_bearing \<le> max_bearing then min_bearing \<le> bearing \<and> bearing \<le> max_bearing
      else bearing \<ge> min_bearing \<or> bearing \<le> max_bearing)"

definition valid_directions :: "string list" where
  "valid_directions =
     [''north'', ''south'', ''east'', ''west'',
      ''northeast'', ''northwest'', ''southeast'', ''southwest'']"

section \<open>Closest aircraft\<close>

record closest_args =
  ca_count :: "pyval option"
  ca_max_distance :: "real option"

text \<open>
  One constructor for each \<^verbatim>\<open>return\<close> of \<^verbatim>\<open>_get_closest_aircraft\<close> and
  \<^verbatim>\<open>_get_aircraft_by_direction\<close>. The listings carry the entries that the source then
  formats as text; \<open>Failed e\<close> is the \<^verbatim>\<open>except\<close> branch with the exception text.
\<close>

datatype reply =
    Invalid_count
  | Invalid_direction string
  | Receiver_unknown
  | No_aircraft_within real
  | No_aircraft_near
  | No_directional_within string real
  | No_directional string
  | Closest "(real \<times> aircraft) list"
  | Directional string "(real \<times> real \<times> aircraft) list"
  | Failed string

text \<open>
  The loop that fills \<^verbatim>\<open>aircraft_with_distances\<close>: the accumulator is the list built so
  far, each kept aircraft is appended with its distance to the feeder.
\<close>

fun aircraft_with_distances ::
  "real \<Rightarrow> real \<Rightarrow> real option \<Rightarrow> (real \<times> aircraft) list \<Rightarrow> aircraft list
     \<Rightarrow> (real \<times> aircraft) list" where
  "aircraft_with_distances feeder_lat feeder_lon max_distance acc [] = acc"
| "aircraft_with_distances feeder_lat feeder_lon max_distance acc (a # rest) =
     (case (ac_lat a, ac_lon a) of
        (Some la, Some lo) \<Rightarrow>
          (let distance = calculate_distance feeder_lat feeder_lon la lo in
           if (case max_distance of None \<Rightarrow> True | Some m \<Rightarrow> distance \<le> m)
           then aircraft_with_distances feeder_lat feeder_lon max_distance (acc @ [(distance, a)]) rest
           else aircraft_with_distances feeder_lat feeder_lon max_distance acc rest)
      | _ \<Rightarrow> aircraft_with_distances feeder_lat feeder_lon max_distance acc rest)"

text \<open>
  \<^verbatim>\<open>aircraft_with_distances.sort(key=lambda x: x[0])\<close> followed by the slice
  \<^verbatim>\<open>[:count]\<close>. Python's sort is stable, as \<^const>\<open>sort_key\<close> is, and a stable
  ascending sort has one result only.
\<close>

definition closest_aircraft ::
  "real \<Rightarrow> real \<Rightarrow> real option \<Rightarrow> int \<Rightarrow> aircraft list \<Rightarrow> (real \<times> aircraft) list" where
  "closest_aircraft feeder_lat feeder_lon max_distance count aircraft_list =
     take (nat count)
       (sort_key fst (aircraft_with_distances feeder_lat feeder_lon max_distance [] aircraft_list))"

text \<open>
  \<^verbatim>\<open>_get_closest_aircraft\<close>, with the list of endpoints fetched so far as second
  component.
\<close>

definition get_closest_aircraft :: "upstream \<Rightarrow> closest_args \<Rightarrow> reply \<times> endpoint list" where
  "get_closest_aircraft up args =
     (let count = get_default (ca_count args) (PyInt 5) in
      if \<not> isinstance_int count \<or> int_value count < 1 \<or> int_value count > 50
      then (Invalid_count, [])
      else
        let max_distance = ca_max_distance args in
        (case receiver_json up of
          Inl e \<Rightarrow> (Failed e, [Receiver_endpoint])
        | Inr receiver_data \<Rightarrow>
            let feeder_lat = rx_lat receiver_data;
                feeder_lon = rx_lon receiver_data
            in
            if \<not> truthy feeder_lat \<or> \<not> truthy feeder_lon
            then (Receiver_unknown, [Receiver_endpoint])
            else
              (case (feeder_lat, feeder_lon) of
                 (Some la, Some lo) \<Rightarrow>
                   (case aircraft_json up of
                      Inl e \<Rightarrow> (Failed e, [Receiver_endpoint, Aircraft_endpoint])
                    | Inr aircraft_list \<Rightarrow>
                        let closest =
                          closest_aircraft la lo max_distance (int_value count) aircraft_list
                        in
                        if closest = []
                        then
                          (case max_distance of
                             Some m \<Rightarrow>
                               if m \<noteq> 0
                               then (No_aircraft_within m, [Receiver_endpoint, Aircraft_endpoint])
                               else (No_aircraft_near, [Receiver_endpoint, Aircraft_endpoint])
                           | None \<Rightarrow> (No_aircraft_near, [Receiver_endpoint, Aircraft_endpoint]))
                        else (Closest closest, [Receiver_endpoint, Aircraft_endpoint]))
               | _ \<Rightarrow> (Receiver_unknown, [Receiver_endpoint]))))"


section \<open>Aircraft by direction\<close>

record direction_args =
  da_direction :: "string option"
  da_max_distance :: "real option"
  da_count :: "pyval option"

text \<open>
  The loop that fills \<^verbatim>\<open>directional_aircraft\<close>: the bearing test comes first, the
  distance is computed and compared only for an aircraft in the direction.
\<close>

fun directional_aircraft ::
  "real \<Rightarrow> real \<Rightarrow> real \<Rightarrow> real \<Rightarrow> real option \<Rightarrow> (real \<times> real \<times> aircraft) list
     \<Rightarrow> aircraft list \<Rightarrow> (real \<times> real \<times> aircraft) list" where
  "directional_aircraft feeder_lat feeder_lon min_bearing max_bearing max_distance acc [] = acc"
| "directional_aircraft feeder_lat feeder_lon min_bearing max_bearing max_distance acc (a # rest) =
     (case (ac_lat a, ac_lon a) of
        (Some la, Some lo) \<Rightarrow>
          (let bearing = calculate_bearing feeder_lat feeder_lon la lo in
           if in_direction bearing min_bearing max_bearing
           then
             (let distance = calculate_distance feeder_lat feeder_lon la lo in
              if (case max_distance of None \<Rightarrow> True | Some m \<Rightarrow> distance \<le> m)
              then directional_aircraft feeder_lat feeder_lon min_bearing max_bearing max_distance
                     (acc @ [(distance, bearing, a)]) rest
              else directional_aircraft feeder_lat feeder_lon min_bearing max_bearing max_distance
                     acc rest)
           else directional_aircraft feeder_lat feeder_lon min_bearing max_bearing max_distance
                  acc rest)
      | _ \<Rightarrow> directional_aircraft feeder_lat feeder_lon min_bearing max_bearing max_distance
               acc rest)"

definition aircraft_in_direction ::
  "real \<Rightarrow> real \<Rightarrow> string \<Rightarrow> real option \<Rightarrow> int \<Rightarrow> aircraft list
     \<Rightarrow> (real \<times> real \<times> aircraft) list" where
  "aircraft_in_direction feeder_lat feeder_lon direction max_distance count aircraft_list =
     (case get_direction_range direction of
        (min_bearing, max_bearing) \<Rightarrow>
          take (nat count)
            (sort_key fst
               (directional_aircraft feeder_lat feeder_lon min_bearing max_bearing max_distance []
                  aircraft_list)))"

definition get_aircraft_by_direction ::
  "upstream \<Rightarrow> direction_args \<Rightarrow> reply \<times> endpoint list" where
  "get_aircraft_by_direction up args =
     (case da_direction args of
        None \<Rightarrow> (Failed (quoted ''direction''), [])
      | Some raw \<Rightarrow>
          let direction = lower raw in
          if direction \<notin> set valid_directions
          then (Invalid_direction direction, [])
          else
            let max_distance = da_max_distance args;
                count = get_default (da_count args) (PyInt 10)
            in
            if \<not> isinstance_int count \<or> int_value count < 1 \<or> int_value count > 50
            then (Invalid_count, [])
            else
              (case receiver_json up of
                Inl e \<Rightarrow> (Failed e, [Receiver_endpoint])
              | Inr receiver_data \<Rightarrow>
                  let feeder_lat = rx_lat receiver_data;
                      feeder_lon = rx_lon receiver_data
                  in
                  if \<not> truthy feeder_lat \<or> \<not> truthy feeder_lon
                  then (Receiver_unknown, [Receiver_endpoint])
                  else
                    (case (feeder_lat, feeder_lon) of
                       (Some la, Some lo) \<Rightarrow>
                         (case aircraft_json up of
                            Inl e \<Rightarrow> (Failed e, [Receiver_endpoint, Aircraft_endpoint])
                          | Inr aircraft_list \<Rightarrow>
                              let found =
                                aircraft_in_direction la lo direction max_distance
                                  (int_value count) aircraft_list
                              in
                              if found = []
                              then
                                (case max_distance of
                                   Some m \<Rightarrow>
                                     if m \<noteq> 0
                                     then (No_directional_within direction m,
                                           [Receiver_endpoint, Aircraft_endpoint])
                                     else (No_directional direction,
                                           [Receiver_endpoint, Aircraft_endpoint])
                                 | None \<Rightarrow>
                                     (No_directional direction,
                                      [Receiver_endpoint, Aircraft_endpoint]))
                              else (Directional direction found,
                                    [Receiver_endpoint, Aircraft_endpoint]))
                     | _ \<Rightarrow> (Receiver_unknown, [Receiver_endpoint]))))"

section \<open>Search\<close>









section \<open>Filtered aircraft list\<close>





section \<open>Vocabulary of the properties\<close>

text \<open>
  The definitions of this section are not taken from the source: they name what the
  properties below talk about.
\<close>

text \<open>The count check of both spatial operations passes.\<close>

definition count_in_range :: "pyval \<Rightarrow> bool" where
  "count_in_range c = (isinstance_int c \<and> 1 \<le> int_value c \<and> int_value c \<le> 50)"

text \<open>
  The distance of an aircraft to the feeder; an aircraft without both coordinates has
  none.
\<close>

definition distance_from :: "real \<Rightarrow> real \<Rightarrow> aircraft \<Rightarrow> real option" where
  "distance_from feeder_lat feeder_lon a =
     (case (ac_lat a, ac_lon a) of
        (Some la, Some lo) \<Rightarrow> Some (calculate_distance feeder_lat feeder_lon la lo)
      | _ \<Rightarrow> None)"

text \<open>The bearing of an aircraft from the feeder, likewise.\<close>

definition bearing_from :: "real \<Rightarrow> real \<Rightarrow> aircraft \<Rightarrow> real option" where
  "bearing_from feeder_lat feeder_lon a =
     (case (ac_lat a, ac_lon a) of
        (Some la, Some lo) \<Rightarrow> Some (calculate_bearing feeder_lat feeder_lon la lo)
      | _ \<Rightarrow> None)"

text \<open>A distance passes the optional limit.\<close>

fun within_limit :: "real option \<Rightarrow> real \<Rightarrow> bool" where
  "within_limit None d = True"
| "within_limit (Some m) d = (d \<le> m)"


text \<open>
  What one aircraft adds to the list of candidates of the by-direction loop: itself with
  its distance and bearing, when it has a position, the bearing is in the range and the
  distance passes the limit.
\<close>

definition kept_directional ::
  "real \<Rightarrow> real \<Rightarrow> real \<Rightarrow> real \<Rightarrow> real option \<Rightarrow> aircraft
     \<Rightarrow> (real \<times> real \<times> aircraft) list" where
  "kept_directional feeder_lat feeder_lon min_bearing max_bearing max_distance a =
     (case (bearing_from feeder_lat feeder_lon a, distance_from feeder_lat feeder_lon a) of
        (Some b, Some d) \<Rightarrow>
          if in_direction b min_bearing max_bearing \<and> within_limit max_distance d
          then [(d, b, a)] else []
      | _ \<Rightarrow> [])"




section \<open>Sample inputs\<close>

definition aircraft_due_east :: aircraft where
  "aircraft_due_east =
     \<lparr>ac_hex = Some ''a1b2c3'', ac_flight = Some ''UAL12   '', ac_lat = Some 0,
      ac_lon = Some 10, ac_alt_baro = Some 20000, ac_r_dst = Some 600\<rparr>"

definition aircraft_no_altitude :: aircraft where
  "aircraft_no_altitude =
     \<lparr>ac_hex = Some ''4ca7b5'', ac_flight = None, ac_lat = Some 1,
      ac_lon = None, ac_alt_baro = None, ac_r_dst = None\<rparr>"

definition upstream_at_origin :: upstream where
  "upstream_at_origin =
     \<lparr>receiver_json = Inr \<lparr>rx_lat = Some 0, rx_lon = Some 0\<rparr>,
      aircraft_json = Inr [aircraft_due_east]\<rparr>"

definition upstream_sample :: upstream where
  "upstream_sample =
     \<lparr>receiver_json = Inr \<lparr>rx_lat = Some 52, rx_lon = Some 13\<rparr>,
      aircraft_json = Inr [aircraft_due_east, aircraft_no_altitude]\<rparr>"



section \<open>Properties of the direction sectors\<close>

lemma unknown_direction_default:
  "direction \<notin> set valid_directions \<Longrightarrow> get_direction_range direction = (0, 360)"
  by (simp add: get_direction_range_def direction_ranges_def valid_directions_def)

lemma lower_up: "lower ''up'' = ''up''"
  by (simp add: lower_def lower_char_def)

lemma up_not_valid: "''up'' \<notin> set valid_directions"
  by (simp add: valid_directions_def)

text \<open>
  C1, as stated, fails: a name outside the eight directions, here \<open>up\<close>, does not make the
  lookup fail; the lookup returns the range \<open>(0, 360)\<close>.
\<close>

theorem direction_range_unknown_counterexample:
  "''up'' \<notin> set valid_directions \<and> get_direction_range ''up'' = (0, 360)"
  by (simp add: get_direction_range_def direction_ranges_def valid_directions_def)

text \<open>
  C1, amended: for every direction name that is not one of the eight compass directions,
  the range lookup returns the default range \<open>(0, 360)\<close>; the name is rejected one level
  up, where the by-direction operation answers an unknown (lower-cased) direction with the
  invalid-direction message before it looks the range up or fetches anything.
\<close>

theorem direction_range_unknown:
  assumes "direction \<notin> set valid_directions"
  shows "get_direction_range direction = (0, 360)
    \<and> (\<forall>up args raw. da_direction args = Some raw \<and> lower raw = direction
          \<longrightarrow> get_aircraft_by_direction up args = (Invalid_direction direction, []))"
proof -
  have "get_direction_range direction = (0, 360)"
    using assms by (rule unknown_direction_default)
  moreover have "get_aircraft_by_direction up args = (Invalid_direction direction, [])"
    if "da_direction args = Some raw" "lower raw = direction" for up args raw
    using that assms by (simp add: get_aircraft_by_direction_def)
  ultimately show ?thesis by blast
qed

theorem direction_range_unknown_witness:
  "get_direction_range ''up'' = (0, 360)
    \<and> get_aircraft_by_direction upstream_sample
         \<lparr>da_direction = Some ''up'', da_max_distance = None, da_count = None\<rparr>
       = (Invalid_direction ''up'', [])"
  using direction_range_unknown [OF up_not_valid] lower_up by simp

text \<open>
  C2: the membership test is the closed interval when the minimum is not above the
  maximum, and otherwise (wraparound) holds for a bearing at or above the minimum or at or
  below the maximum. For the range of north, \<open>(337.5, 22.5)\<close>, the bearing 350 is a
  member and the bearing 180 is not.
\<close>

theorem in_direction_rule:
  "(min_bearing \<le> max_bearing \<longrightarrow>
      (in_direction b min_bearing max_bearing \<longleftrightarrow> min_bearing \<le> b \<and> b \<le> max_bearing))
   \<and> (min_bearing > max_bearing \<longrightarrow>
      (in_direction b min_bearing max_bearing \<longleftrightarrow> b \<ge> min_bearing \<or> b \<le> max_bearing))
   \<and> get_direction_range ''north'' = (337.5, 22.5)
   \<and> in_direction 350 337.5 22.5
   \<and> \<not> in_direction 180 337.5 22.5"
  by (simp add: in_direction_def get_direction_range_def direction_ranges_def)

theorem in_direction_rule_witness:
  "in_direction 90 67.5 112.5 \<and> \<not> in_direction 200 67.5 112.5
   \<and> in_direction 10 337.5 22.5 \<and> \<not> in_direction 100 337.5 22.5"
  using in_direction_rule [of "67.5" "112.5" 90] in_direction_rule [of "67.5" "112.5" 200]
    in_direction_rule [of "337.5" "22.5" 10] in_direction_rule [of "337.5" "22.5" 100]
  by simp

section \<open>Properties of the coordinate mathematics\<close>

lemma sin_half_diff_sq: "(sin ((y - x) / 2))\<^sup>2 = (sin ((x - y) / 2))\<^sup>2" for x y :: real
proof -
  have "(y - x) / 2 = - ((x - y) / 2)" by (simp add: field_simps)
  then show ?thesis by (simp only: sin_minus power2_minus)
qed

lemma calculate_distance_commute:
  "calculate_distance lat1 lon1 lat2 lon2 = calculate_distance lat2 lon2 lat1 lon1"
  unfolding calculate_distance_def Let_def
  by (simp only: sin_half_diff_sq mult.commute [of "cos (radians lat1)"])

lemma calculate_distance_same: "calculate_distance lat1 lon1 lat1 lon1 = 0"
  by (simp add: calculate_distance_def)

text \<open>
  C9: the distance from \<open>p1\<close> to \<open>p2\<close> and the distance from \<open>p2\<close> to \<open>p1\<close> differ by
  at most \<open>10\<^sup>-\<^sup>6\<close> nautical miles (in the exact arithmetic of the model they are
  equal), and the distance from a point to itself is 0.
\<close>

theorem calculate_distance_symmetric:
  "\<bar>calculate_distance lat1 lon1 lat2 lon2 - calculate_distance lat2 lon2 lat1 lon1\<bar>
      \<le> 1 / 10 ^ 6
   \<and> calculate_distance lat1 lon1 lat2 lon2 = calculate_distance lat2 lon2 lat1 lon1
   \<and> calculate_distance lat1 lon1 lat1 lon1 = 0"
  by (simp add: calculate_distance_commute [of lat1 lon1 lat2 lon2] calculate_distance_same)

text \<open>
  The argument of the square root and of the arc sine in \<^verbatim>\<open>_calculate_distance\<close> lies
  between 0 and 1 for all coordinates, so that in exact arithmetic neither
  \<^verbatim>\<open>math.sqrt\<close> nor \<^verbatim>\<open>math.asin\<close> is called outside its domain.
\<close>

lemma haversine_argument_bounds:
  fixes p1 p2 l1 l2 :: real
  defines "a \<equiv> (sin ((p2 - p1) / 2))\<^sup>2 + cos p1 * cos p2 * (sin ((l2 - l1) / 2))\<^sup>2"
  shows "0 \<le> a \<and> a \<le> 1"
proof -
  define s where "s = (sin ((l2 - l1) / 2))\<^sup>2"
  define A where "A = (sin ((p2 - p1) / 2))\<^sup>2"
  define B where "B = A + cos p1 * cos p2"
  have s0: "0 \<le> s" by (simp add: s_def)
  have s1: "s \<le> 1"
    unfolding s_def by (simp add: abs_square_le_1)
  have A0: "0 \<le> A" by (simp add: A_def)
  have A1: "A \<le> 1"
    unfolding A_def by (simp add: abs_square_le_1)
  have "2 * ((p2 - p1) / 2) = p2 - p1"
    by simp
  then have "cos (p2 - p1) = 1 - 2 * (sin ((p2 - p1) / 2))\<^sup>2"
    using cos_double_sin [of "(p2 - p1) / 2"] by (simp only:)
  then have half: "A = (1 - cos (p2 - p1)) / 2"
    by (simp add: A_def)
  have B_eq: "B = (1 + cos (p1 + p2)) / 2"
    by (simp add: B_def half cos_diff cos_add field_simps)
  have "0 \<le> 1 + cos (p1 + p2)"
    using cos_ge_minus_one [of "p1 + p2"] by linarith
  then have B0: "0 \<le> B"
    by (simp add: B_eq)
  have "1 + cos (p1 + p2) \<le> 2"
    using cos_le_one [of "p1 + p2"] by linarith
  then have B1: "B \<le> 1"
    by (simp add: B_eq)
  have a_eq: "a = (1 - s) * A + s * B"
    by (simp add: a_def s_def A_def B_def algebra_simps)
  have "0 \<le> (1 - s) * A + s * B"
    using s0 s1 A0 B0 by (intro add_nonneg_nonneg mult_nonneg_nonneg) simp_all
  moreover have "(1 - s) * A + s * B \<le> (1 - s) * 1 + s * 1"
    using s0 s1 A1 B1 by (intro add_mono mult_left_mono) simp_all
  ultimately show ?thesis
    by (simp add: a_eq)
qed

lemma calculate_distance_nonneg: "0 \<le> calculate_distance lat1 lon1 lat2 lon2"
proof -
  let ?a = "(sin ((radians lat2 - radians lat1) / 2))\<^sup>2
      + cos (radians lat1) * cos (radians lat2) * (sin ((radians lon2 - radians lon1) / 2))\<^sup>2"
  have "0 \<le> ?a" and "?a \<le> 1"
    using haversine_argument_bounds [of "radians lat2" "radians lat1" "radians lon2" "radians lon1"]
    by simp_all
  then have "0 \<le> sqrt ?a" and "sqrt ?a \<le> 1"
    by simp_all
  then have "arcsin 0 \<le> arcsin (sqrt ?a)"
    by (intro arcsin_le_arcsin) simp_all
  then have "0 \<le> arcsin (sqrt ?a)"
    by simp
  then show ?thesis
    by (simp add: calculate_distance_def Let_def)
qed

lemma bearing_due_east: "calculate_bearing 0 0 0 10 = 90"
proof -
  have "0 < sin (pi / 18)"
    by (rule sin_gt_zero) (simp_all add: pi_gt_zero)
  then show ?thesis
    by (simp add: calculate_bearing_def radians_def degrees_def atan2_def float_mod_def Let_def)
qed


section \<open>Validation and the receiver location\<close>

lemma lower_east: "lower ''east'' = ''east''"
  by (simp add: lower_def lower_char_def)

lemma east_valid: "''east'' \<in> set valid_directions"
  by (simp add: valid_directions_def)





lemma closest_receiver_zero:
  assumes "count_in_range (get_default (ca_count args) (PyInt 5))"
    and "receiver_json up = Inr receiver_data"
    and "\<not> truthy (rx_lat receiver_data) \<or> \<not> truthy (rx_lon receiver_data)"
  shows "get_closest_aircraft up args = (Receiver_unknown, [Receiver_endpoint])"
  using assms by (auto simp: get_closest_aircraft_def count_in_range_def Let_def)

lemma direction_receiver_zero:
  assumes "da_direction args = Some raw" and "lower raw \<in> set valid_directions"
    and "count_in_range (get_default (da_count args) (PyInt 10))"
    and "receiver_json up = Inr receiver_data"
    and "\<not> truthy (rx_lat receiver_data) \<or> \<not> truthy (rx_lon receiver_data)"
  shows "get_aircraft_by_direction up args = (Receiver_unknown, [Receiver_endpoint])"
  using assms by (auto simp: get_aircraft_by_direction_def count_in_range_def Let_def)

text \<open>
  C10: when the receiver data give the latitude 0 or the longitude 0, the
  closest-aircraft operation (called with a valid count) and the by-direction operation
  (called with a valid direction and count) answer that the receiver location cannot be
  determined, and the aircraft list is not fetched: the check for a missing coordinate
  is a truth test, and 0 is false as \<^verbatim>\<open>None\<close> is.
\<close>

theorem zero_coordinate_is_missing:
  assumes "receiver_json up = Inr receiver_data"
    and "rx_lat receiver_data = Some 0 \<or> rx_lon receiver_data = Some 0"
  shows "(count_in_range (get_default (ca_count cargs) (PyInt 5)) \<longrightarrow>
            get_closest_aircraft up cargs = (Receiver_unknown, [Receiver_endpoint]))
    \<and> (\<forall>raw. da_direction dargs = Some raw \<and> lower raw \<in> set valid_directions
          \<and> count_in_range (get_default (da_count dargs) (PyInt 10)) \<longrightarrow>
            get_aircraft_by_direction up dargs = (Receiver_unknown, [Receiver_endpoint]))"
proof -
  have z: "\<not> truthy (rx_lat receiver_data) \<or> \<not> truthy (rx_lon receiver_data)"
    using assms(2) by auto
  show ?thesis
    using closest_receiver_zero [OF _ assms(1) z] direction_receiver_zero [OF _ _ _ assms(1) z]
    by blast
qed

theorem zero_coordinate_is_missing_witness:
  "get_closest_aircraft
      \<lparr>receiver_json = Inr \<lparr>rx_lat = Some 0, rx_lon = Some 13\<rparr>,
       aircraft_json = Inr [aircraft_due_east]\<rparr>
      \<lparr>ca_count = Some (PyInt 5), ca_max_distance = None\<rparr>
     = (Receiver_unknown, [Receiver_endpoint])
   \<and> get_aircraft_by_direction
      \<lparr>receiver_json = Inr \<lparr>rx_lat = Some 0, rx_lon = Some 13\<rparr>,
       aircraft_json = Inr [aircraft_due_east]\<rparr>
      \<lparr>da_direction = Some ''east'', da_max_distance = None, da_count = None\<rparr>
     = (Receiver_unknown, [Receiver_endpoint])"
  using
    zero_coordinate_is_missing [of
      "\<lparr>receiver_json = Inr \<lparr>rx_lat = Some 0, rx_lon = Some 13\<rparr>,
        aircraft_json = Inr [aircraft_due_east]\<rparr>"
      "\<lparr>rx_lat = Some 0, rx_lon = Some 13\<rparr>"
      "\<lparr>ca_count = Some (PyInt 5), ca_max_distance = None\<rparr>"
      "\<lparr>da_direction = Some ''east'', da_max_distance = None, da_count = None\<rparr>"]
    lower_east east_valid
  by (simp add: count_in_range_def)


section \<open>Properties of the closest-aircraft operation\<close>

lemma within_limit_case:
  "(case m of None \<Rightarrow> True | Some x \<Rightarrow> d \<le> x) = within_limit m d"
  by (cases m) simp_all









lemma get_closest_aircraft_fetches:
  assumes "count_in_range (get_default (ca_count args) (PyInt 5))"
    and "receiver_json up = Inr receiver_data"
    and "rx_lat receiver_data = Some flat" and "rx_lon receiver_data = Some flon"
    and "aircraft_json up = Inr snapshot" and "flat \<noteq> 0" and "flon \<noteq> 0"
  shows "get_closest_aircraft up args \<in>
     {(Closest (closest_aircraft flat flon (ca_max_distance args)
                 (int_value (get_default (ca_count args) (PyInt 5))) snapshot),
       [Receiver_endpoint, Aircraft_endpoint]),
      (No_aircraft_near, [Receiver_endpoint, Aircraft_endpoint]),
      (No_aircraft_within (get_default (ca_max_distance args) 0),
       [Receiver_endpoint, Aircraft_endpoint])}"
  using assms
  by (auto simp: get_closest_aircraft_def count_in_range_def Let_def split: option.splits)





section \<open>Properties of the by-direction operation\<close>

lemma directional_aircraft_eq:
  "directional_aircraft flat flon lo hi m acc as
     = acc @ concat (map (kept_directional flat flon lo hi m) as)"
proof (induction as arbitrary: acc)
  case Nil
  show ?case by simp
next
  case (Cons a as)
  show ?case
  proof (cases "ac_lat a")
    case None
    then show ?thesis
      by (simp add: Cons.IH kept_directional_def distance_from_def bearing_from_def)
  next
    case (Some la)
    note la = this
    show ?thesis
    proof (cases "ac_lon a")
      case None
      with la show ?thesis
        by (simp add: Cons.IH kept_directional_def distance_from_def bearing_from_def)
    next
      case (Some lo)
      with la show ?thesis
        by (simp add: Cons.IH kept_directional_def distance_from_def bearing_from_def
            within_limit_case Let_def)
    qed
  qed
qed

lemma kept_directional_mem:
  "(d, b, a) \<in> set (concat (map (kept_directional flat flon lo hi m) as))
     \<longleftrightarrow> a \<in> set as \<and> bearing_from flat flon a = Some b \<and> in_direction b lo hi
         \<and> distance_from flat flon a = Some d \<and> within_limit m d"
  by (induction as) (auto simp: kept_directional_def split: option.splits if_splits)

lemma aircraft_in_direction_eq:
  "aircraft_in_direction flat flon direction m n as =
     take (nat n)
       (sort_key fst
          (concat (map (kept_directional flat flon (fst (get_direction_range direction))
                          (snd (get_direction_range direction)) m) as)))"
  by (simp add: aircraft_in_direction_def directional_aircraft_eq split: prod.splits)

lemma aircraft_in_direction_mem:
  assumes "(d, b, a) \<in> set (aircraft_in_direction flat flon direction m n as)"
  shows "a \<in> set as \<and> bearing_from flat flon a = Some b
     \<and> in_direction b (fst (get_direction_range direction)) (snd (get_direction_range direction))
     \<and> distance_from flat flon a = Some d \<and> within_limit m d"
proof -
  from assms have "(d, b, a) \<in> set (concat (map (kept_directional flat flon
      (fst (get_direction_range direction)) (snd (get_direction_range direction)) m) as))"
    unfolding aircraft_in_direction_eq by (auto dest: in_set_takeD)
  then show ?thesis
    by (simp only: kept_directional_mem)
qed

lemma aircraft_in_direction_sorted:
  "sorted (map fst (aircraft_in_direction flat flon direction m n as))"
proof -
  let ?c = "concat (map (kept_directional flat flon (fst (get_direction_range direction))
                          (snd (get_direction_range direction)) m) as)"
  have "sorted (take (nat n) (map fst (sort_key fst ?c)))"
    by (rule sorted_wrt_take) (rule sorted_sort_key)
  then show ?thesis
    by (simp add: aircraft_in_direction_eq take_map)
qed

lemma aircraft_in_direction_length:
  "length (aircraft_in_direction flat flon direction m n as) \<le> nat n"
  by (simp add: aircraft_in_direction_eq)

lemma aircraft_in_direction_east:
  "aircraft_in_direction 0 0 ''east'' None 10 [aircraft_due_east]
     = [(calculate_distance 0 0 0 10, 90, aircraft_due_east)]"
  by (simp add: aircraft_in_direction_def get_direction_range_def direction_ranges_def
      aircraft_due_east_def bearing_due_east in_direction_def)

lemma aircraft_in_direction_west:
  "aircraft_in_direction 0 0 ''west'' None 10 [aircraft_due_east] = []"
  by (simp add: aircraft_in_direction_def get_direction_range_def direction_ranges_def
      aircraft_due_east_def bearing_due_east in_direction_def)

text \<open>
  C4, evaluated at the input of its example: the feeder at \<open>(0, 0)\<close> and one aircraft at
  \<open>(0, 10)\<close>. The by-direction operation does not list the aircraft for the direction
  east: it answers that the receiver location cannot be determined, and does not fetch
  the aircraft list. The loop of the operation, run on the same input, would keep the
  aircraft for east (at the bearing 90) and drop it for west.
\<close>

theorem by_direction_at_origin:
  "get_aircraft_by_direction upstream_at_origin
      \<lparr>da_direction = Some ''east'', da_max_distance = None, da_count = None\<rparr>
     = (Receiver_unknown, [Receiver_endpoint])
   \<and> aircraft_in_direction 0 0 ''east'' None 10 [aircraft_due_east]
     = [(calculate_distance 0 0 0 10, 90, aircraft_due_east)]
   \<and> aircraft_in_direction 0 0 ''west'' None 10 [aircraft_due_east] = []"
  by (simp add: aircraft_in_direction_east aircraft_in_direction_west
      get_aircraft_by_direction_def upstream_at_origin_def lower_east east_valid)

theorem by_direction_at_origin_witness:
  "fst (get_aircraft_by_direction upstream_at_origin
      \<lparr>da_direction = Some ''east'', da_max_distance = None, da_count = None\<rparr>)
     = Receiver_unknown
   \<and> snd (get_aircraft_by_direction upstream_at_origin
      \<lparr>da_direction = Some ''east'', da_max_distance = None, da_count = None\<rparr>)
     = [Receiver_endpoint]"
  using by_direction_at_origin by simp


section \<open>Properties of the filtered list\<close>






section \<open>Properties of strings\<close>


lemma upper_char_idem: "upper_char (upper_char c) = upper_char c"
  by (simp add: upper_char_def)

lemma upper_idem: "upper (upper s) = upper s"
  by (simp add: upper_def upper_char_idem)






section \<open>Properties of the search\<close>














end
